theory Spec2Isabelle
  imports Main
begin

section \<open>The login handlers of skyline-apiserver (api/v1/login.py)\<close>

text \<open>
  The module holds four request handlers (\<open>login\<close>, \<open>get_profile\<close>, \<open>logout\<close>,
  \<open>switch_project\<close>) and the helper \<open>_patch_profile\<close>. Everything they call lives
  in other modules or libraries; those collaborators are the fields of the record
  \<open>env\<close> below, each a function from its arguments to either the exception it raises
  (\<open>Inl\<close>) or the value it returns (\<open>Inr\<close>). The handlers thread a \<open>world\<close>: the
  cookie headers written to the \<open>Response\<close> object and the trace of collaborator calls
  made so far.
\<close>

subsection \<open>Exceptions\<close>

text \<open>
  \<open>Exception m\<close> is any instance of a subclass of Python's \<open>Exception\<close> other than
  \<open>HTTPException\<close>, with \<open>m\<close> the text \<open>str(e)\<close> gives; line 87 raises
  \<open>Exception("You are not ...")\<close>, whose \<open>str\<close> is its argument.
  \<open>HTTPException status_code detail\<close> is FastAPI's exception, raised on lines 49, 102
  and 184; it is a subclass of \<open>Exception\<close>, so the \<open>except Exception\<close> clauses catch
  it as well. Exceptions outside the \<open>Exception\<close> hierarchy (an interrupt, the exit of
  the interpreter, the cancellation of the task) are not modelled.
\<close>

datatype exn = Exception string | HTTPException nat string

definition HTTP_200_OK :: nat where
  "HTTP_200_OK = 200"

definition HTTP_401_UNAUTHORIZED :: nat where
  "HTTP_401_UNAUTHORIZED = 401"

subsection \<open>Data\<close>

text \<open>\<open>schemas.Credential\<close>: the fields \<open>login\<close> reads (lines 70, 76-78).\<close>

record credential =
  cred_region :: string
  cred_domain :: string
  cred_username :: string
  cred_password :: string

text \<open>An element of \<open>unscope_client.auth.projects()\<close>: lines 85 and 92 read \<open>enabled\<close> and \<open>id\<close>.\<close>

record project_scope =
  scope_id :: string
  enabled :: bool

text \<open>\<open>profile.user\<close>, of which line 47 reads \<open>id\<close>.\<close>

record user =
  user_id :: string

text \<open>
  \<open>schemas.Profile\<close>. The module reads \<open>region\<close>, \<open>user.id\<close>, \<open>keystone_token\<close>,
  \<open>uuid\<close> and \<open>exp\<close> and writes \<open>endpoints\<close> and \<open>projects\<close>; \<open>project\<close> is the
  project scope the specification lists. The dictionaries of endpoints and projects
  are association lists; the handlers never look inside them.
\<close>

type_synonym dict = "(string \<times> string) list"

record profile =
  user :: user
  region :: string
  project :: string
  keystone_token :: string
  exp :: int
  uuid :: string
  endpoints :: dict
  projects :: dict

text \<open>The result of \<open>parse_access_token\<close>, of which line 146 reads \<open>keystone_token\<close>.\<close>

record access_token =
  token_keystone_token :: string
  token_rest :: string

text \<open>
  The objects lines 74-82 construct: \<open>Password(auth_url, user_domain_name, username,
  password, reauthenticate)\<close>, \<open>osSession(auth, verify)\<close> and
  \<open>KeystoneClient(session, endpoint)\<close>. Constructing them performs no call.
\<close>

datatype password = Password string string string string bool

datatype os_session = osSession password bool

datatype keystone_client = KeystoneClient os_session string

text \<open>A session object handed out by \<open>get_system_session\<close> or \<open>generate_session\<close>.\<close>

type_synonym session_handle = nat

text \<open>\<open>schemas.common.OK(message=...)\<close>.\<close>

datatype ok = OK string

subsection \<open>The world: response cookies and the trace of external calls\<close>

text \<open>
  \<open>Response.set_cookie\<close> and \<open>Response.delete_cookie\<close> each append one
  \<open>Set-Cookie\<close> header to the response; they are taken not to raise, and so is the
  profile's serialiser \<open>toJWTPayload\<close>.
\<close>

datatype cookie_op = SetCookie string string | DeleteCookie string

datatype call =
    GetSystemSession
  | GetEndpoint string string
  | AuthProjects keystone_client
  | SessionGetToken os_session
  | GetProjectScopeToken string string string
  | GenerateProfile string string "string option"
  | GetEndpoints string
  | GetProjects string string
  | ParseAccessToken string
  | GenerateProfileByToken access_token
  | GenerateSession profile
  | RevokeToken profile session_handle string
  | DbRevokeToken string int
  | LogDebug string

record world =
  response :: "cookie_op list"
  trace :: "call list"

subsection \<open>The collaborators\<close>

text \<open>
  One field for each name the module imports and calls. \<open>generate_profile\<close> takes
  \<open>keystone_token\<close>, \<open>region\<close> and the optional \<open>uuid_value\<close>. \<open>toJWTPayload\<close> is the
  profile's serialiser and \<open>session_name\<close> is \<open>CONF.default.session_name\<close>.
  \<open>http_exception_str status_code detail\<close> is what \<open>str\<close> gives for an
  \<open>HTTPException\<close>; it belongs to the web framework and is left open.
\<close>

record env =
  get_system_session :: "exn + session_handle"
  get_endpoint :: "string \<Rightarrow> string \<Rightarrow> session_handle \<Rightarrow> exn + string"
  auth_projects :: "keystone_client \<Rightarrow> exn + project_scope list"
  session_get_token :: "os_session \<Rightarrow> exn + string"
  get_project_scope_token :: "string \<Rightarrow> string \<Rightarrow> string \<Rightarrow> exn + string"
  generate_profile :: "string \<Rightarrow> string \<Rightarrow> string option \<Rightarrow> exn + profile"
  get_endpoints :: "string \<Rightarrow> exn + dict"
  get_projects :: "string \<Rightarrow> string \<Rightarrow> exn + dict"
  toJWTPayload :: "profile \<Rightarrow> string"
  session_name :: string
  parse_access_token :: "string \<Rightarrow> exn + access_token"
  generate_profile_by_token :: "access_token \<Rightarrow> exn + profile"
  generate_session :: "profile \<Rightarrow> exn + session_handle"
  revoke_token :: "profile \<Rightarrow> session_handle \<Rightarrow> string \<Rightarrow> exn + unit"
  db_revoke_token :: "string \<Rightarrow> int \<Rightarrow> exn + unit"
  http_exception_str :: "nat \<Rightarrow> string \<Rightarrow> string"

text \<open>Python's \<open>str(e)\<close>.\<close>

fun str_exn :: "env \<Rightarrow> exn \<Rightarrow> string" where
  "str_exn env (Exception m) = m"
| "str_exn env (HTTPException status_code detail) = http_exception_str env status_code detail"

subsection \<open>Computations that may raise\<close>

type_synonym 'a io = "world \<Rightarrow> (exn + 'a) \<times> world"

definition return_io :: "'a \<Rightarrow> 'a io" where
  "return_io x w = (Inr x, w)"

definition raise_io :: "exn \<Rightarrow> 'a io" where
  "raise_io e w = (Inl e, w)"

text \<open>Sequencing: an exception of the first statement skips the rest.\<close>

definition bind_io :: "'a io \<Rightarrow> ('a \<Rightarrow> 'b io) \<Rightarrow> 'b io" where
  "bind_io m f w = (case m w of (Inl e, w') \<Rightarrow> (Inl e, w') | (Inr x, w') \<Rightarrow> f x w')"

text \<open>
  \<open>try: body / except Exception as e: handler / else: orelse\<close>. The \<open>else\<close> suite runs
  after a body that raised nothing, outside the protection of the \<open>except\<close> clause.
\<close>

definition try_except_else :: "'a io \<Rightarrow> (exn \<Rightarrow> 'b io) \<Rightarrow> ('a \<Rightarrow> 'b io) \<Rightarrow> 'b io" where
  "try_except_else body handler orelse w =
     (case body w of (Inl e, w') \<Rightarrow> handler e w' | (Inr x, w') \<Rightarrow> orelse x w')"

text \<open>A call of a collaborator: it is recorded in the trace, then returns or raises.\<close>

definition call_ext :: "call \<Rightarrow> exn + 'a \<Rightarrow> 'a io" where
  "call_ext c r w = (r, w\<lparr>trace := trace w @ [c]\<rparr>)"

definition set_cookie :: "string \<Rightarrow> string \<Rightarrow> unit io" where
  "set_cookie key v w = (Inr (), w\<lparr>response := response w @ [SetCookie key v]\<rparr>)"

definition delete_cookie :: "string \<Rightarrow> unit io" where
  "delete_cookie key w = (Inr (), w\<lparr>response := response w @ [DeleteCookie key]\<rparr>)"

subsection \<open>The handlers\<close>

text \<open>\<open>_patch_profile\<close>, lines 44-53.\<close>

definition patch_profile :: "env \<Rightarrow> profile \<Rightarrow> profile io" where
  "patch_profile env profile =
     try_except_else
       (bind_io (call_ext (GetEndpoints (region profile)) (get_endpoints env (region profile)))
          (\<lambda>eps. let profile = profile\<lparr>endpoints := eps\<rparr> in
           bind_io (call_ext (GetProjects (region profile) (user_id (user profile)))
                      (get_projects env (region profile) (user_id (user profile))))
             (\<lambda>ps. return_io (profile\<lparr>projects := ps\<rparr>))))
       (\<lambda>e. raise_io (HTTPException HTTP_401_UNAUTHORIZED (str_exn env e)))
       return_io"

text \<open>The \<open>try\<close> suite of \<open>login\<close>, lines 69-100.\<close>

definition login_body :: "env \<Rightarrow> credential \<Rightarrow> profile io" where
  "login_body env credential =
     bind_io (call_ext GetSystemSession (get_system_session env))
       (\<lambda>system_session.
     bind_io (call_ext (GetEndpoint (cred_region credential) ''keystone'')
                (get_endpoint env (cred_region credential) ''keystone'' system_session))
       (\<lambda>auth_url.
     let unscope_auth = Password auth_url (cred_domain credential) (cred_username credential)
                          (cred_password credential) False;
         session = osSession unscope_auth False;
         unscope_client = KeystoneClient session auth_url
     in
     bind_io (call_ext (AuthProjects unscope_client) (auth_projects env unscope_client))
       (\<lambda>project_scope.
     let project_scope = filter enabled project_scope in
     if project_scope = []
     then raise_io (Exception ''You are not authorized for any projects or domains.'')
     else
     bind_io (call_ext (SessionGetToken session) (session_get_token env session))
       (\<lambda>unscoped_token.
     bind_io (call_ext (GetProjectScopeToken unscoped_token (cred_region credential)
                          (scope_id (hd project_scope)))
                (get_project_scope_token env unscoped_token (cred_region credential)
                   (scope_id (hd project_scope))))
       (\<lambda>project_scope_token.
     bind_io (call_ext (GenerateProfile project_scope_token (cred_region credential) None)
                (generate_profile env project_scope_token (cred_region credential) None))
       (\<lambda>profile. patch_profile env profile))))))"

text \<open>\<open>login\<close>, lines 67-108.\<close>

definition login :: "env \<Rightarrow> credential \<Rightarrow> profile io" where
  "login env credential =
     try_except_else (login_body env credential)
       (\<lambda>e. raise_io (HTTPException HTTP_401_UNAUTHORIZED (str_exn env e)))
       (\<lambda>profile. bind_io (set_cookie (session_name env) (toJWTPayload env profile))
                     (\<lambda>_. return_io profile))"

text \<open>
  \<open>get_profile\<close>, lines 122-123. Its argument is the profile the dependency
  \<open>deps.get_profile_update_jwt\<close> built from a valid session.
\<close>

definition get_profile :: "env \<Rightarrow> profile \<Rightarrow> profile io" where
  "get_profile env profile = patch_profile env profile"

text \<open>
  \<open>logout\<close>, lines 136-151. The payload is \<open>None\<close> or a string; \<open>if payload\<close> is false
  for \<open>None\<close> and for the empty string. \<open>logout_body\<close> is the \<open>try\<close> suite.
\<close>

definition logout_body :: "env \<Rightarrow> string \<Rightarrow> unit io" where
  "logout_body env payload =
     bind_io (call_ext (ParseAccessToken payload) (parse_access_token env payload))
       (\<lambda>token.
     bind_io (call_ext (GenerateProfileByToken token) (generate_profile_by_token env token))
       (\<lambda>profile.
     bind_io (call_ext (GenerateSession profile) (generate_session env profile))
       (\<lambda>session.
     bind_io (call_ext (RevokeToken profile session (token_keystone_token token))
                (revoke_token env profile session (token_keystone_token token)))
       (\<lambda>_.
     call_ext (DbRevokeToken (uuid profile) (exp profile))
       (db_revoke_token env (uuid profile) (exp profile))))))"

definition logout :: "env \<Rightarrow> string option \<Rightarrow> ok io" where
  "logout env payload =
     bind_io
       (case payload of
          None \<Rightarrow> return_io ()
        | Some s \<Rightarrow>
            if s \<noteq> []
            then try_except_else (logout_body env s)
                   (\<lambda>e. call_ext (LogDebug (str_exn env e)) (Inr ()))
                   return_io
            else return_io ())
       (\<lambda>_. bind_io (delete_cookie (session_name env))
               (\<lambda>_. return_io (OK ''Logout OK'')))"

text \<open>
  \<open>switch_project\<close>, lines 165-190. Its profile argument is the one the dependency
  \<open>deps.get_profile\<close> built from the session.
\<close>

definition switch_project_body :: "env \<Rightarrow> string \<Rightarrow> profile \<Rightarrow> profile io" where
  "switch_project_body env project_id profile =
     bind_io (call_ext (GetProjectScopeToken (keystone_token profile) (region profile) project_id)
                (get_project_scope_token env (keystone_token profile) (region profile) project_id))
       (\<lambda>project_scope_token.
     bind_io (call_ext (GenerateProfile project_scope_token (region profile) (Some (uuid profile)))
                (generate_profile env project_scope_token (region profile) (Some (uuid profile))))
       (\<lambda>profile. patch_profile env profile))"

definition switch_project :: "env \<Rightarrow> string \<Rightarrow> profile \<Rightarrow> profile io" where
  "switch_project env project_id profile =
     try_except_else (switch_project_body env project_id profile)
       (\<lambda>e. raise_io (HTTPException HTTP_401_UNAUTHORIZED (str_exn env e)))
       (\<lambda>profile. bind_io (set_cookie (session_name env) (toJWTPayload env profile))
                     (\<lambda>_. return_io profile))"

text \<open>
  The session and the client that lines 74-82 of \<open>login\<close> construct, as functions of the
  credential and the keystone URL.
\<close>

definition unscope_session :: "credential \<Rightarrow> string \<Rightarrow> os_session" where
  "unscope_session credential auth_url =
     osSession (Password auth_url (cred_domain credential) (cred_username credential)
                  (cred_password credential) False) False"

definition unscope_client :: "credential \<Rightarrow> string \<Rightarrow> keystone_client" where
  "unscope_client credential auth_url =
     KeystoneClient (unscope_session credential auth_url) auth_url"

subsection \<open>Outcomes as HTTP responses\<close>

text \<open>
  Every route is declared with \<open>status_code=status.HTTP_200_OK\<close>, the status of a
  handler that returns. The framework answers a raised \<open>HTTPException\<close> with the
  status it carries and any other exception with 500.
\<close>

definition status_of :: "exn + 'a \<Rightarrow> nat" where
  "status_of r =
     (case r of
        Inr _ \<Rightarrow> HTTP_200_OK
      | Inl (HTTPException status_code _) \<Rightarrow> status_code
      | Inl (Exception _) \<Rightarrow> 500)"

text \<open>The exception the three \<open>except\<close> clauses raise for a caught \<open>e\<close> (lines 49, 102, 184).\<close>

definition unauthorized :: "env \<Rightarrow> exn \<Rightarrow> exn + 'a" where
  "unauthorized env e = Inl (HTTPException HTTP_401_UNAUTHORIZED (str_exn env e))"

definition is_unauthorized :: "exn + 'a \<Rightarrow> bool" where
  "is_unauthorized r =
     (case r of
        Inl (HTTPException status_code _) \<Rightarrow> status_code = HTTP_401_UNAUTHORIZED
      | Inl (Exception _) \<Rightarrow> False
      | Inr _ \<Rightarrow> False)"

subsection \<open>A concrete deployment\<close>

text \<open>
  A well-behaved set of collaborators, used to run the handlers on concrete requests:
  keystone lists one disabled and two enabled projects for the user. Its framework is
  one whose \<open>HTTPException\<close> defines no \<open>__str__\<close>: the module constructs the exception
  with keyword arguments only, so \<open>str\<close> of it is the empty string.
\<close>

definition demo_projects :: "project_scope list" where
  "demo_projects =
     [\<lparr>scope_id = ''p0'', enabled = False\<rparr>,
      \<lparr>scope_id = ''p1'', enabled = True\<rparr>,
      \<lparr>scope_id = ''p2'', enabled = True\<rparr>]"

definition demo_builder :: "string \<Rightarrow> string \<Rightarrow> string option \<Rightarrow> exn + profile" where
  "demo_builder tok reg uuid_value =
     Inr \<lparr>user = \<lparr>user_id = ''u1''\<rparr>, region = reg, project = ''project-of-'' @ tok,
          keystone_token = tok, exp = 3600,
          uuid = (case uuid_value of None \<Rightarrow> ''fresh-uuid'' | Some u \<Rightarrow> u),
          endpoints = [], projects = []\<rparr>"

definition demo_endpoints :: dict where
  "demo_endpoints = [(''keystone'', ''http://keystone/v3'')]"

definition demo_user_projects :: dict where
  "demo_user_projects = [(''p1'', ''demo''), (''p2'', ''admin'')]"

definition demo_env :: env where
  "demo_env =
     \<lparr>get_system_session = Inr 0,
      get_endpoint = (\<lambda>reg service s. Inr ''http://keystone/v3''),
      auth_projects = (\<lambda>client. Inr demo_projects),
      session_get_token = (\<lambda>s. Inr ''unscoped''),
      get_project_scope_token = (\<lambda>tok reg project_id. Inr (''scoped-'' @ project_id)),
      generate_profile = demo_builder,
      get_endpoints = (\<lambda>reg. Inr demo_endpoints),
      get_projects = (\<lambda>reg u. Inr demo_user_projects),
      toJWTPayload = (\<lambda>p. ''jwt-'' @ uuid p),
      session_name = ''session'',
      parse_access_token = (\<lambda>payload. Inr \<lparr>token_keystone_token = payload, token_rest = []\<rparr>),
      generate_profile_by_token =
        (\<lambda>t. demo_builder (token_keystone_token t) ''RegionOne'' (Some ''uuid-1'')),
      generate_session = (\<lambda>p. Inr 1),
      revoke_token = (\<lambda>p s t. Inr ()),
      db_revoke_token = (\<lambda>u e. Inr ()),
      http_exception_str = (\<lambda>status_code detail. [])\<rparr>"

definition demo_credential :: credential where
  "demo_credential =
     \<lparr>cred_region = ''RegionOne'', cred_domain = ''default'',
      cred_username = ''alice'', cred_password = ''secret''\<rparr>"

definition w0 :: world where
  "w0 = \<lparr>response = [], trace = []\<rparr>"

text \<open>The profile a session presents: a token scoped to \<open>p1\<close>, expiry 1000.\<close>

definition demo_profile :: profile where
  "demo_profile =
     \<lparr>user = \<lparr>user_id = ''u1''\<rparr>, region = ''RegionOne'', project = ''p1'',
      keystone_token = ''scoped-p1'', exp = 1000, uuid = ''uuid-1'',
      endpoints = [], projects = []\<rparr>"

text \<open>What \<open>login\<close> and \<open>switch_project\<close> to \<open>p2\<close> return in this deployment.\<close>

definition demo_login_profile :: profile where
  "demo_login_profile =
     \<lparr>user = \<lparr>user_id = ''u1''\<rparr>, region = ''RegionOne'', project = ''project-of-scoped-p1'',
      keystone_token = ''scoped-p1'', exp = 3600, uuid = ''fresh-uuid'',
      endpoints = demo_endpoints, projects = demo_user_projects\<rparr>"

definition demo_switched_profile :: profile where
  "demo_switched_profile =
     \<lparr>user = \<lparr>user_id = ''u1''\<rparr>, region = ''RegionOne'', project = ''project-of-scoped-p2'',
      keystone_token = ''scoped-p2'', exp = 3600, uuid = ''uuid-1'',
      endpoints = demo_endpoints, projects = demo_user_projects\<rparr>"

text \<open>Deployments in which one collaborator fails.\<close>

definition no_enabled_env :: env where
  "no_enabled_env =
     demo_env\<lparr>auth_projects := (\<lambda>client. Inr [\<lparr>scope_id = ''p0'', enabled = False\<rparr>])\<rparr>"

definition bad_token_env :: env where
  "bad_token_env =
     demo_env\<lparr>parse_access_token := (\<lambda>payload. Inl (Exception ''Signature verification failed''))\<rparr>"

definition keystone_down_env :: env where
  "keystone_down_env =
     demo_env\<lparr>get_project_scope_token := (\<lambda>tok reg project_id. Inl (Exception ''keystone unreachable''))\<rparr>"

definition catalog_down_env :: env where
  "catalog_down_env =
     demo_env\<lparr>get_endpoints := (\<lambda>reg. Inl (Exception ''catalog unreachable''))\<rparr>"






section \<open>What the handlers compute\<close>

lemmas io_defs = bind_io_def call_ext_def try_except_else_def return_io_def raise_io_def
  set_cookie_def delete_cookie_def

lemmas demo_defs = demo_env_def demo_builder_def demo_credential_def demo_projects_def
  demo_profile_def demo_login_profile_def demo_switched_profile_def w0_def

lemma patch_profile_result:
  "patch_profile env p w =
     (case get_endpoints env (region p) of
        Inl e \<Rightarrow> (unauthorized env e, w\<lparr>trace := trace w @ [GetEndpoints (region p)]\<rparr>)
      | Inr eps \<Rightarrow>
          (case get_projects env (region p) (user_id (user p)) of
             Inl e \<Rightarrow> (unauthorized env e,
                        w\<lparr>trace := trace w @ [GetEndpoints (region p),
                                              GetProjects (region p) (user_id (user p))]\<rparr>)
           | Inr ps \<Rightarrow> (Inr (p\<lparr>endpoints := eps, projects := ps\<rparr>),
                        w\<lparr>trace := trace w @ [GetEndpoints (region p),
                                              GetProjects (region p) (user_id (user p))]\<rparr>)))"
  by (simp add: patch_profile_def io_defs unauthorized_def split: sum.splits)

lemma get_profile_fst:
  "fst (get_profile env prof w) =
     (case get_endpoints env (region prof) of
        Inl e \<Rightarrow> unauthorized env e
      | Inr eps \<Rightarrow>
          (case get_projects env (region prof) (user_id (user prof)) of
             Inl e \<Rightarrow> unauthorized env e
           | Inr ps \<Rightarrow> Inr (prof\<lparr>endpoints := eps, projects := ps\<rparr>)))"
  by (simp add: get_profile_def patch_profile_result split: sum.splits)

lemma login_body_fst:
  "fst (login_body env c w) =
     (case get_system_session env of
        Inl e \<Rightarrow> Inl e
      | Inr s \<Rightarrow>
     (case get_endpoint env (cred_region c) ''keystone'' s of
        Inl e \<Rightarrow> Inl e
      | Inr auth_url \<Rightarrow>
     (case auth_projects env (unscope_client c auth_url) of
        Inl e \<Rightarrow> Inl e
      | Inr projs \<Rightarrow>
     if filter enabled projs = []
     then Inl (Exception ''You are not authorized for any projects or domains.'')
     else
     (case session_get_token env (unscope_session c auth_url) of
        Inl e \<Rightarrow> Inl e
      | Inr tok \<Rightarrow>
     (case get_project_scope_token env tok (cred_region c)
             (scope_id (hd (filter enabled projs))) of
        Inl e \<Rightarrow> Inl e
      | Inr stok \<Rightarrow>
     (case generate_profile env stok (cred_region c) None of
        Inl e \<Rightarrow> Inl e
      | Inr p \<Rightarrow> fst (get_profile env p w)))))))"
  by (simp add: login_body_def get_profile_fst patch_profile_result bind_io_def call_ext_def
      raise_io_def unscope_client_def unscope_session_def Let_def split: sum.splits)

lemma login_fst:
  "fst (login env c w) =
     (case fst (login_body env c w) of Inl e \<Rightarrow> unauthorized env e | Inr p \<Rightarrow> Inr p)"
  by (simp add: login_def io_defs unauthorized_def split: sum.splits prod.splits)

lemma switch_project_body_fst:
  "fst (switch_project_body env project_id prof w) =
     (case get_project_scope_token env (keystone_token prof) (region prof) project_id of
        Inl e \<Rightarrow> Inl e
      | Inr stok \<Rightarrow>
          (case generate_profile env stok (region prof) (Some (uuid prof)) of
             Inl e \<Rightarrow> Inl e
           | Inr p \<Rightarrow> fst (get_profile env p w)))"
  by (simp add: switch_project_body_def get_profile_fst patch_profile_result bind_io_def
      call_ext_def split: sum.splits)

lemma switch_project_fst:
  "fst (switch_project env project_id prof w) =
     (case fst (switch_project_body env project_id prof w) of
        Inl e \<Rightarrow> unauthorized env e | Inr p \<Rightarrow> Inr p)"
  by (simp add: switch_project_def io_defs unauthorized_def split: sum.splits prod.splits)

lemma body_keeps_response:
  "response (snd (login_body env c w)) = response w"
  "response (snd (switch_project_body env project_id prof w)) = response w"
  by (simp_all add: login_body_def switch_project_body_def patch_profile_result bind_io_def
      call_ext_def raise_io_def Let_def split: sum.splits)

lemma logout_fst: "fst (logout env payload w) = Inr (OK ''Logout OK'')"
  by (simp add: logout_def io_defs split: sum.splits prod.splits option.splits)


text \<open>A login that succeeds went through every step, and each step returned.\<close>

lemma login_success_chain:
  assumes "fst (login env c w) = Inr p"
  shows "\<exists>s auth_url projs tok stok p0 eps ps.
           get_system_session env = Inr s \<and>
           get_endpoint env (cred_region c) ''keystone'' s = Inr auth_url \<and>
           auth_projects env (unscope_client c auth_url) = Inr projs \<and>
           filter enabled projs \<noteq> [] \<and>
           session_get_token env (unscope_session c auth_url) = Inr tok \<and>
           get_project_scope_token env tok (cred_region c)
             (scope_id (hd (filter enabled projs))) = Inr stok \<and>
           generate_profile env stok (cred_region c) None = Inr p0 \<and>
           get_endpoints env (region p0) = Inr eps \<and>
           get_projects env (region p0) (user_id (user p0)) = Inr ps \<and>
           p = p0\<lparr>endpoints := eps, projects := ps\<rparr>"
  using assms
  by (auto simp: login_fst login_body_fst get_profile_fst unauthorized_def
      split: sum.splits if_splits)


lemma switch_success_chain:
  assumes "fst (switch_project env project_id prof w) = Inr p"
  shows "\<exists>stok p0 eps ps.
           get_project_scope_token env (keystone_token prof) (region prof) project_id = Inr stok \<and>
           generate_profile env stok (region prof) (Some (uuid prof)) = Inr p0 \<and>
           get_endpoints env (region p0) = Inr eps \<and>
           get_projects env (region p0) (user_id (user p0)) = Inr ps \<and>
           p = p0\<lparr>endpoints := eps, projects := ps\<rparr>"
  using assms
  by (auto simp: switch_project_fst switch_project_body_fst get_profile_fst unauthorized_def
      split: sum.splits)

lemma demo_login:
  "fst (login demo_env demo_credential w0) = Inr demo_login_profile"
  by (simp add: login_fst login_body_fst get_profile_fst demo_defs demo_endpoints_def
      demo_user_projects_def)

lemma demo_switch:
  "fst (switch_project demo_env ''p2'' demo_profile w0) = Inr demo_switched_profile"
  by (simp add: switch_project_fst switch_project_body_fst get_profile_fst demo_defs)

text \<open>
  Of the profile presented to it, \<open>switch_project\<close> reads the keystone token, the region
  and the uuid, and nothing else.
\<close>

lemma switch_project_reads_three_fields:
  assumes "keystone_token prof' = keystone_token prof"
    and "region prof' = region prof" and "uuid prof' = uuid prof"
  shows "switch_project env project_id prof' w = switch_project env project_id prof w"
  using assms by (simp add: switch_project_def switch_project_body_def)

lemma logout_response:
  "response (snd (logout env payload w)) = response w @ [DeleteCookie (session_name env)]"
  by (simp add: logout_def logout_body_def io_defs split: sum.splits prod.splits option.splits)

subsection \<open>Runs in the concrete deployments\<close>

lemmas run_defs = login_def login_body_def switch_project_def switch_project_body_def
  patch_profile_def logout_def logout_body_def get_profile_def io_defs Let_def

lemma demo_login_run:
  "login demo_env demo_credential w0 =
     (Inr demo_login_profile,
      \<lparr>response = [SetCookie ''session'' ''jwt-fresh-uuid''],
       trace = [GetSystemSession, GetEndpoint ''RegionOne'' ''keystone'',
                AuthProjects (unscope_client demo_credential ''http://keystone/v3''),
                SessionGetToken (unscope_session demo_credential ''http://keystone/v3''),
                GetProjectScopeToken ''unscoped'' ''RegionOne'' ''p1'',
                GenerateProfile ''scoped-p1'' ''RegionOne'' None,
                GetEndpoints ''RegionOne'', GetProjects ''RegionOne'' ''u1'']\<rparr>)"
  by (simp add: run_defs demo_defs unscope_client_def unscope_session_def)

lemma demo_switch_run:
  "switch_project demo_env ''p2'' demo_profile w0 =
     (Inr demo_switched_profile,
      \<lparr>response = [SetCookie ''session'' ''jwt-uuid-1''],
       trace = [GetProjectScopeToken ''scoped-p1'' ''RegionOne'' ''p2'',
                GenerateProfile ''scoped-p2'' ''RegionOne'' (Some ''uuid-1''),
                GetEndpoints ''RegionOne'', GetProjects ''RegionOne'' ''u1'']\<rparr>)"
  by (simp add: run_defs demo_defs)

lemma keystone_down_login_run:
  "login keystone_down_env demo_credential w0 =
     (Inl (HTTPException 401 ''keystone unreachable''),
      \<lparr>response = [],
       trace = [GetSystemSession, GetEndpoint ''RegionOne'' ''keystone'',
                AuthProjects (unscope_client demo_credential ''http://keystone/v3''),
                SessionGetToken (unscope_session demo_credential ''http://keystone/v3''),
                GetProjectScopeToken ''unscoped'' ''RegionOne'' ''p1'']\<rparr>)"
  by (simp add: run_defs keystone_down_env_def demo_defs unscope_client_def unscope_session_def
      HTTP_401_UNAUTHORIZED_def)

lemma keystone_down_switch_run:
  "switch_project keystone_down_env ''p2'' demo_profile w0 =
     (Inl (HTTPException 401 ''keystone unreachable''),
      \<lparr>response = [],
       trace = [GetProjectScopeToken ''scoped-p1'' ''RegionOne'' ''p2'']\<rparr>)"
  by (simp add: run_defs keystone_down_env_def demo_defs HTTP_401_UNAUTHORIZED_def)


text \<open>
  The result of login, step by step: the first step that raises decides the response,
  and the patching step raises the \<open>HTTPException\<close> of \<open>_patch_profile\<close>.
\<close>

lemma login_result_by_step:
  "fst (login env c w) =
     (case get_system_session env of
        Inl e \<Rightarrow> unauthorized env e
      | Inr s \<Rightarrow>
     (case get_endpoint env (cred_region c) ''keystone'' s of
        Inl e \<Rightarrow> unauthorized env e
      | Inr auth_url \<Rightarrow>
     (case auth_projects env (unscope_client c auth_url) of
        Inl e \<Rightarrow> unauthorized env e
      | Inr projs \<Rightarrow>
     if filter enabled projs = []
     then unauthorized env (Exception ''You are not authorized for any projects or domains.'')
     else
     (case session_get_token env (unscope_session c auth_url) of
        Inl e \<Rightarrow> unauthorized env e
      | Inr tok \<Rightarrow>
     (case get_project_scope_token env tok (cred_region c)
             (scope_id (hd (filter enabled projs))) of
        Inl e \<Rightarrow> unauthorized env e
      | Inr stok \<Rightarrow>
     (case generate_profile env stok (cred_region c) None of
        Inl e \<Rightarrow> unauthorized env e
      | Inr p \<Rightarrow>
     (case get_endpoints env (region p) of
        Inl e \<Rightarrow> unauthorized env (HTTPException HTTP_401_UNAUTHORIZED (str_exn env e))
      | Inr eps \<Rightarrow>
     (case get_projects env (region p) (user_id (user p)) of
        Inl e \<Rightarrow> unauthorized env (HTTPException HTTP_401_UNAUTHORIZED (str_exn env e))
      | Inr ps \<Rightarrow> Inr (p\<lparr>endpoints := eps, projects := ps\<rparr>)))))))))"
  by (simp add: login_fst login_body_fst get_profile_fst unauthorized_def split: sum.splits)

section \<open>Login\<close>

text \<open>
  Claim C2: when a step of login raises, the detail of the 401 response is to be the
  message of that exception. It is not when the step is the patching of endpoints and
  projects. With keystone answering and the endpoint lookup raising
  "catalog unreachable", \<open>_patch_profile\<close> raises an \<open>HTTPException\<close> carrying that
  message, which is what get_profile answers; login's own \<open>except\<close> clause catches this
  \<open>HTTPException\<close> and raises a second one whose detail is \<open>str\<close> of the first, that
  is, whatever the framework renders for an \<open>HTTPException\<close> (\<open>render\<close>), and the empty
  string in the deployment at hand.
\<close>

theorem login_rewraps_patch_failure:
  "fst (login (catalog_down_env\<lparr>http_exception_str := render\<rparr>) demo_credential w0)
     = Inl (HTTPException 401 (render 401 ''catalog unreachable'')) \<and>
   fst (get_profile (catalog_down_env\<lparr>http_exception_str := render\<rparr>) demo_profile w0)
     = Inl (HTTPException 401 ''catalog unreachable'') \<and>
   fst (login catalog_down_env demo_credential w0) = Inl (HTTPException 401 [])"
  by (simp add: login_result_by_step get_profile_fst catalog_down_env_def demo_defs
      unauthorized_def unscope_client_def unscope_session_def HTTP_401_UNAUTHORIZED_def)

text \<open>
  Claim C7. When the credentials authenticate and keystone lists no enabled project,
  login fails with an HTTP 401 response whose detail is
  "You are not authorized for any projects or domains."; the only collaborators called
  are the system session, the endpoint lookup and \<open>auth.projects()\<close>, so neither the
  token scoping nor the profile generation is attempted, and no cookie is set.
\<close>

theorem login_without_enabled_project:
  assumes "get_system_session env = Inr s"
    and "get_endpoint env (cred_region c) ''keystone'' s = Inr auth_url"
    and "auth_projects env (unscope_client c auth_url) = Inr projs"
    and "filter enabled projs = []"
  shows "login env c w =
     (Inl (HTTPException HTTP_401_UNAUTHORIZED
             ''You are not authorized for any projects or domains.''),
      w\<lparr>trace := trace w @ [GetSystemSession, GetEndpoint (cred_region c) ''keystone'',
                             AuthProjects (unscope_client c auth_url)]\<rparr>)"
  using assms
  by (simp add: login_def login_body_def io_defs unscope_client_def unscope_session_def Let_def)

theorem login_without_enabled_project_witness:
  "get_system_session no_enabled_env = Inr 0 \<and>
   get_endpoint no_enabled_env (cred_region demo_credential) ''keystone'' 0
     = Inr ''http://keystone/v3'' \<and>
   auth_projects no_enabled_env (unscope_client demo_credential ''http://keystone/v3'')
     = Inr [\<lparr>scope_id = ''p0'', enabled = False\<rparr>] \<and>
   filter enabled [\<lparr>scope_id = ''p0'', enabled = False\<rparr>] = [] \<and>
   login no_enabled_env demo_credential w0 =
     (Inl (HTTPException 401 ''You are not authorized for any projects or domains.''),
      \<lparr>response = [],
       trace = [GetSystemSession, GetEndpoint ''RegionOne'' ''keystone'',
                AuthProjects (unscope_client demo_credential ''http://keystone/v3'')]\<rparr>)"
proof -
  have h1: "get_system_session no_enabled_env = Inr 0"
    and h2: "get_endpoint no_enabled_env (cred_region demo_credential) ''keystone'' 0
               = Inr ''http://keystone/v3''"
    and h3: "auth_projects no_enabled_env (unscope_client demo_credential ''http://keystone/v3'')
               = Inr [\<lparr>scope_id = ''p0'', enabled = False\<rparr>]"
    and h4: "filter enabled [\<lparr>scope_id = ''p0'', enabled = False\<rparr>] = []"
    by (simp_all add: no_enabled_env_def demo_env_def)
  show ?thesis
    using h1 h2 h3 h4 login_without_enabled_project [OF h1 h2 h3 h4, of w0]
    by (simp add: w0_def demo_credential_def HTTP_401_UNAUTHORIZED_def)
qed

text \<open>
  Claim C5. For login and for switch_project, the session cookie, named by the
  configured session name, is set to the JWT payload of the resulting profile exactly
  when the operation succeeds; when it fails, the failure is an unauthorized response
  and the cookies of the response are unchanged.
\<close>

theorem cookie_set_exactly_on_success:
  "(case login env c w of
      (Inr p, w') \<Rightarrow>
        response w' = response w @ [SetCookie (session_name env) (toJWTPayload env p)]
    | (Inl e, w') \<Rightarrow> is_unauthorized (Inl e :: exn + profile) \<and> response w' = response w)
   \<and>
   (case switch_project env project_id prof w of
      (Inr p, w') \<Rightarrow>
        response w' = response w @ [SetCookie (session_name env) (toJWTPayload env p)]
    | (Inl e, w') \<Rightarrow> is_unauthorized (Inl e :: exn + profile) \<and> response w' = response w)"
proof -
  have a: "response (snd (login_body env c w)) = response w"
    and b: "response (snd (switch_project_body env project_id prof w)) = response w"
    by (rule body_keeps_response)+
  show ?thesis
    using a b
    by (auto simp: login_def switch_project_def try_except_else_def bind_io_def set_cookie_def
        return_io_def raise_io_def is_unauthorized_def split: sum.splits prod.splits)
qed

theorem cookie_set_exactly_on_success_witness:
  "response (snd (login demo_env demo_credential w0)) = [SetCookie ''session'' ''jwt-fresh-uuid''] \<and>
   response (snd (switch_project demo_env ''p2'' demo_profile w0))
     = [SetCookie ''session'' ''jwt-uuid-1''] \<and>
   response (snd (login keystone_down_env demo_credential w0)) = [] \<and>
   response (snd (switch_project keystone_down_env ''p2'' demo_profile w0)) = []"
  using cookie_set_exactly_on_success [where env = demo_env and c = demo_credential
      and w = w0 and project_id = "''p2''" and prof = demo_profile]
    cookie_set_exactly_on_success [where env = keystone_down_env and c = demo_credential
      and w = w0 and project_id = "''p2''" and prof = demo_profile]
  by (simp add: demo_login_run demo_switch_run keystone_down_login_run keystone_down_switch_run)




text \<open>
  Claim C4, as stated, fails. The profile the builder produces has empty endpoints and
  projects; \<open>_patch_profile\<close> assigns both fields, so the profile login returns differs
  from the built one in these two fields.
\<close>

theorem login_overwrites_built_endpoints:
  "generate_profile demo_env ''scoped-p1'' ''RegionOne'' None
     = Inr (demo_login_profile\<lparr>endpoints := [], projects := []\<rparr>) \<and>
   GenerateProfile ''scoped-p1'' ''RegionOne'' None
     \<in> set (trace (snd (login demo_env demo_credential w0))) \<and>
   fst (login demo_env demo_credential w0) = Inr demo_login_profile \<and>
   endpoints demo_login_profile \<noteq> endpoints (demo_login_profile\<lparr>endpoints := [], projects := []\<rparr>) \<and>
   projects demo_login_profile \<noteq> projects (demo_login_profile\<lparr>endpoints := [], projects := []\<rparr>)"
  by (simp add: demo_login_run)
     (simp add: demo_defs demo_endpoints_def demo_user_projects_def)

text \<open>
  Claim C4, amended. The profile that login, switch_project and get_profile return
  equals the profile the builder produced (for get_profile, the profile of the session)
  in every field except \<open>endpoints\<close> and \<open>projects\<close>; these two hold what the endpoint
  and project lookups returned for the profile's region and user.
\<close>

theorem returned_profile_is_built_profile_patched:
  "(fst (login env c w) = Inr p_login \<longrightarrow>
      (\<exists>tok p0 eps ps.
          generate_profile env tok (cred_region c) None = Inr p0 \<and>
          get_endpoints env (region p0) = Inr eps \<and>
          get_projects env (region p0) (user_id (user p0)) = Inr ps \<and>
          p_login = p0\<lparr>endpoints := eps, projects := ps\<rparr>))
   \<and>
   (fst (switch_project env project_id prof w) = Inr p_switch \<longrightarrow>
      (\<exists>tok p0 eps ps.
          generate_profile env tok (region prof) (Some (uuid prof)) = Inr p0 \<and>
          get_endpoints env (region p0) = Inr eps \<and>
          get_projects env (region p0) (user_id (user p0)) = Inr ps \<and>
          p_switch = p0\<lparr>endpoints := eps, projects := ps\<rparr>))
   \<and>
   (fst (get_profile env prof w) = Inr p_get \<longrightarrow>
      (\<exists>eps ps.
          get_endpoints env (region prof) = Inr eps \<and>
          get_projects env (region prof) (user_id (user prof)) = Inr ps \<and>
          p_get = prof\<lparr>endpoints := eps, projects := ps\<rparr>))"
proof (intro conjI impI)
  assume "fst (login env c w) = Inr p_login"
  from login_success_chain [OF this]
  show "\<exists>tok p0 eps ps.
          generate_profile env tok (cred_region c) None = Inr p0 \<and>
          get_endpoints env (region p0) = Inr eps \<and>
          get_projects env (region p0) (user_id (user p0)) = Inr ps \<and>
          p_login = p0\<lparr>endpoints := eps, projects := ps\<rparr>"
    by blast
next
  assume "fst (switch_project env project_id prof w) = Inr p_switch"
  from switch_success_chain [OF this]
  show "\<exists>tok p0 eps ps.
          generate_profile env tok (region prof) (Some (uuid prof)) = Inr p0 \<and>
          get_endpoints env (region p0) = Inr eps \<and>
          get_projects env (region p0) (user_id (user p0)) = Inr ps \<and>
          p_switch = p0\<lparr>endpoints := eps, projects := ps\<rparr>"
    by blast
next
  assume "fst (get_profile env prof w) = Inr p_get"
  then show "\<exists>eps ps.
          get_endpoints env (region prof) = Inr eps \<and>
          get_projects env (region prof) (user_id (user prof)) = Inr ps \<and>
          p_get = prof\<lparr>endpoints := eps, projects := ps\<rparr>"
    by (auto simp: get_profile_fst unauthorized_def split: sum.splits)
qed

theorem returned_profile_is_built_profile_patched_witness:
  "fst (login demo_env demo_credential w0) = Inr demo_login_profile \<and>
   fst (switch_project demo_env ''p2'' demo_profile w0) = Inr demo_switched_profile \<and>
   fst (get_profile demo_env demo_profile w0)
     = Inr (demo_profile\<lparr>endpoints := demo_endpoints, projects := demo_user_projects\<rparr>) \<and>
   (\<exists>tok p0. generate_profile demo_env tok ''RegionOne'' None = Inr p0 \<and>
      demo_login_profile = p0\<lparr>endpoints := demo_endpoints, projects := demo_user_projects\<rparr>) \<and>
   (\<exists>tok p0. generate_profile demo_env tok ''RegionOne'' (Some ''uuid-1'') = Inr p0 \<and>
      demo_switched_profile = p0\<lparr>endpoints := demo_endpoints, projects := demo_user_projects\<rparr>)"
proof -
  have h1: "fst (login demo_env demo_credential w0) = Inr demo_login_profile"
    by (simp add: demo_login_run)
  have h2: "fst (switch_project demo_env ''p2'' demo_profile w0) = Inr demo_switched_profile"
    by (simp add: demo_switch_run)
  have h3: "fst (get_profile demo_env demo_profile w0)
              = Inr (demo_profile\<lparr>endpoints := demo_endpoints, projects := demo_user_projects\<rparr>)"
    by (simp add: get_profile_fst demo_env_def)
  have e: "get_endpoints demo_env r = Inr eps \<longleftrightarrow> eps = demo_endpoints"
    and q: "get_projects demo_env r u = Inr ps \<longleftrightarrow> ps = demo_user_projects" for r u eps ps
    by (auto simp: demo_env_def)
  show ?thesis
    using h1 h2 h3
      returned_profile_is_built_profile_patched [where env = demo_env and c = demo_credential
        and w = w0 and project_id = "''p2''" and prof = demo_profile
        and p_login = demo_login_profile and p_switch = demo_switched_profile
        and p_get = "demo_profile\<lparr>endpoints := demo_endpoints, projects := demo_user_projects\<rparr>"]
    by (simp add: e q) (simp add: demo_credential_def demo_profile_def)
qed

section \<open>Profile retrieval\<close>

text \<open>
  Claim C6. get_profile returns the profile of the session with its endpoints and
  projects filled in from the two lookups for the profile's region and user; it fails
  exactly when one of the two lookups raises, and the failure is an HTTP 401 response
  whose detail is the message of that exception.
\<close>

theorem get_profile_patches_or_unauthorized:
  "fst (get_profile env prof w) =
     (case get_endpoints env (region prof) of
        Inl e \<Rightarrow> unauthorized env e
      | Inr eps \<Rightarrow>
          (case get_projects env (region prof) (user_id (user prof)) of
             Inl e \<Rightarrow> unauthorized env e
           | Inr ps \<Rightarrow> Inr (prof\<lparr>endpoints := eps, projects := ps\<rparr>)))
   \<and> isl (fst (get_profile env prof w)) =
       (isl (get_endpoints env (region prof)) \<or>
        isl (get_projects env (region prof) (user_id (user prof))))
   \<and> is_unauthorized (fst (get_profile env prof w)) = isl (fst (get_profile env prof w))"
  by (simp add: get_profile_fst unauthorized_def is_unauthorized_def split: sum.splits)

theorem get_profile_patches_or_unauthorized_witness:
  "fst (get_profile demo_env demo_profile w0)
     = Inr (demo_profile\<lparr>endpoints := demo_endpoints, projects := demo_user_projects\<rparr>) \<and>
   fst (get_profile catalog_down_env demo_profile w0)
     = Inl (HTTPException 401 ''catalog unreachable'')"
  using get_profile_patches_or_unauthorized [of demo_env demo_profile w0]
    get_profile_patches_or_unauthorized [of catalog_down_env demo_profile w0]
  by (simp add: catalog_down_env_def demo_env_def unauthorized_def HTTP_401_UNAUTHORIZED_def)

section \<open>Logout\<close>

text \<open>
  Claim C8. Every logout returns HTTP 200 with the message "Logout OK" and deletes the
  session cookie, whatever the payload is and whichever of the token parsing, the
  profile reconstruction, the session generation and the two revocation calls raises;
  without a payload no collaborator is called at all.
\<close>

theorem logout_always_ok:
  "fst (logout env payload w) = Inr (OK ''Logout OK'') \<and>
   status_of (fst (logout env payload w)) = HTTP_200_OK \<and>
   response (snd (logout env payload w)) = response w @ [DeleteCookie (session_name env)] \<and>
   (payload = None \<longrightarrow> trace (snd (logout env payload w)) = trace w)"
  by (simp add: logout_fst logout_response status_of_def)
     (simp add: logout_def io_defs)

theorem logout_always_ok_witness:
  "logout demo_env None w0 =
     (Inr (OK ''Logout OK''), \<lparr>response = [DeleteCookie ''session''], trace = []\<rparr>) \<and>
   isl (parse_access_token bad_token_env ''t'') \<and>
   fst (logout bad_token_env (Some ''t'') w0) = Inr (OK ''Logout OK'') \<and>
   response (snd (logout bad_token_env (Some ''t'') w0)) = [DeleteCookie ''session'']"
  using logout_always_ok [of demo_env None w0]
    logout_always_ok [of bad_token_env "Some ''t''" w0]
  by (cases "logout demo_env None w0") (simp add: bad_token_env_def demo_env_def w0_def)

section \<open>Project switching\<close>




section \<open>Exceptions across the four handlers\<close>




end
